theory Spec2Isabelle
  imports Main
begin

section \<open>Configuration (config/env.ts)\<close>

text \<open>
  The validated environment. Only the fields the authentication core reads are kept.
  Numbers of the environment are coerced by zod from strings; the model keeps them as
  integers. Instants are integers: milliseconds since the epoch, as \<^verbatim>\<open>Date.now()\<close>
  returns them.
\<close>

record env =
  JWT_SECRET :: string
  COOKIE_ACCESS_TOKEN_MAX_AGE :: int
  COOKIE_REFRESH_TOKEN_MAX_AGE :: int
  PASSWORD_RESET_EXPIRY_HOURS :: int
  RATE_LIMIT_USER_AGENT_LENGTH :: int

definition default_env :: "string \<Rightarrow> env" where
  "default_env secret =
     \<lparr> JWT_SECRET = secret,
       COOKIE_ACCESS_TOKEN_MAX_AGE = 15 * 60,
       COOKIE_REFRESH_TOKEN_MAX_AGE = 7 * 24 * 60 * 60,
       PASSWORD_RESET_EXPIRY_HOURS = 1,
       RATE_LIMIT_USER_AGENT_LENGTH = 50 \<rparr>"

section \<open>Request gate (middleware/rateLimit.ts)\<close>

text \<open>
  The part of a request the limiter reads: three optional headers.
\<close>

record rl_context =
  x_forwarded_for :: "string option"
  x_real_ip :: "string option"
  user_agent :: "string option"

text \<open>
  JavaScript helpers. \<^verbatim>\<open>a || b\<close> on strings takes \<open>b\<close> when \<open>a\<close> is undefined or
  empty; \<^verbatim>\<open>s.trim()\<close> drops white space at both ends; \<^verbatim>\<open>s.slice(0, n)\<close> keeps the
  first \<open>n\<close> characters and counts from the end for a negative \<open>n\<close>.
\<close>

definition js_or :: "string option \<Rightarrow> string \<Rightarrow> string" where
  "js_or a b = (case a of None \<Rightarrow> b | Some s \<Rightarrow> (if s = [] then b else s))"

definition js_space :: "char \<Rightarrow> bool" where
  "js_space ch = (ch \<in> set [CHR '' '', CHR 0x09, CHR 0x0A, CHR 0x0B, CHR 0x0C, CHR 0x0D, CHR 0xA0])"

definition js_trim :: "string \<Rightarrow> string" where
  "js_trim s = rev (dropWhile js_space (rev (dropWhile js_space s)))"

definition js_slice0 :: "string \<Rightarrow> int \<Rightarrow> string" where
  "js_slice0 s n = (if n < 0 then take (nat (int (length s) + n)) s else take (nat n) s)"

definition getClientId :: "env \<Rightarrow> rl_context \<Rightarrow> string" where
  "getClientId e c =
     (let clientIp =
            js_or (map_option (\<lambda>f. js_trim (takeWhile (\<lambda>ch. ch \<noteq> CHR '','') f)) (x_forwarded_for c))
              (js_or (x_real_ip c) ''unknown'');
          userAgent = js_or (user_agent c) ''unknown''
      in clientIp @ '':'' @ js_slice0 userAgent (RATE_LIMIT_USER_AGENT_LENGTH e))"

record client_data =
  count :: int
  resetTime :: int

record RateLimiter =
  requests :: "string \<rightharpoonup> client_data"
  windowSize :: int
  maxRequests :: int

record allow_result =
  allowed :: bool
  retryAfter :: "int option"

text \<open>\<^verbatim>\<open>Math.ceil(d / 1000)\<close> on an integer number of milliseconds.\<close>

definition ceil_seconds :: "int \<Rightarrow> int" where
  "ceil_seconds d = - ((- d) div 1000)"

text \<open>
  \<^verbatim>\<open>isAllowed\<close> reads the clock once; the instant \<open>now\<close> is its argument. The entry is
  replaced when there is none or when \<open>now\<close> is strictly past its reset time; otherwise
  the request is refused once the count has reached the ceiling, and counted if not.
\<close>

definition isAllowed :: "env \<Rightarrow> RateLimiter \<Rightarrow> rl_context \<Rightarrow> int \<Rightarrow> allow_result \<times> RateLimiter" where
  "isAllowed e lim c now =
     (let clientId = getClientId e c in
      case requests lim clientId of
        None \<Rightarrow>
          (\<lparr>allowed = True, retryAfter = None\<rparr>,
           lim\<lparr>requests := (requests lim)(clientId \<mapsto> \<lparr>count = 1, resetTime = now + windowSize lim\<rparr>)\<rparr>)
      | Some clientData \<Rightarrow>
          if now > resetTime clientData then
            (\<lparr>allowed = True, retryAfter = None\<rparr>,
             lim\<lparr>requests := (requests lim)(clientId \<mapsto> \<lparr>count = 1, resetTime = now + windowSize lim\<rparr>)\<rparr>)
          else if count clientData \<ge> maxRequests lim then
            (\<lparr>allowed = False, retryAfter = Some (ceil_seconds (resetTime clientData - now))\<rparr>, lim)
          else
            (\<lparr>allowed = True, retryAfter = None\<rparr>,
             lim\<lparr>requests := (requests lim)(clientId \<mapsto> clientData\<lparr>count := count clientData + 1\<rparr>)\<rparr>))"

text \<open>The periodic \<^verbatim>\<open>cleanup\<close>: entries strictly past their reset time are dropped.\<close>

definition cleanup :: "RateLimiter \<Rightarrow> int \<Rightarrow> RateLimiter" where
  "cleanup lim now =
     lim\<lparr>requests := (\<lambda>k. case requests lim k of
                              None \<Rightarrow> None
                            | Some d \<Rightarrow> (if now > resetTime d then None else Some d))\<rparr>"

text \<open>Decimal rendering of a number, as \<^verbatim>\<open>toString()\<close> gives it for an integer.\<close>

fun nat_digits :: "nat \<Rightarrow> string" where
  "nat_digits n =
     (if n < 10 then [char_of (48 + n)]
      else nat_digits (n div 10) @ [char_of (48 + n mod 10)])"

definition js_toString :: "int \<Rightarrow> string" where
  "js_toString i = (if i < 0 then CHR ''-'' # nat_digits (nat (- i)) else nat_digits (nat i))"

text \<open>
  The middleware built by \<^verbatim>\<open>createRateLimitMiddleware\<close>: a refused request is answered
  with status 429, the retry delay in the body and in the \<^verbatim>\<open>Retry-After\<close> header; an
  allowed one goes on to the next handler.
\<close>

record rl_response =
  rl_status :: nat
  rl_error :: string
  rl_retryAfter :: "int option"
  rl_header_Retry_After :: string
  rl_header_Remaining :: string

datatype rl_outcome = RateLimited rl_response | RlNext

definition createRateLimitMiddleware ::
  "env \<Rightarrow> RateLimiter \<Rightarrow> rl_context \<Rightarrow> int \<Rightarrow> rl_outcome \<times> RateLimiter" where
  "createRateLimitMiddleware e limiter c now =
     (let (result, limiter') = isAllowed e limiter c now in
      if allowed result then (RlNext, limiter')
      else
        (RateLimited
           \<lparr> rl_status = 429,
             rl_error = ''Rate limit exceeded. Please try again later.'',
             rl_retryAfter = retryAfter result,
             rl_header_Retry_After = js_or (map_option js_toString (retryAfter result)) ''60'',
             rl_header_Remaining = ''0'' \<rparr>,
         limiter'))"

text \<open>A run of requests of one client, at the given instants, in order.\<close>

fun run_requests ::
  "env \<Rightarrow> RateLimiter \<Rightarrow> rl_context \<Rightarrow> int list \<Rightarrow> allow_result list \<times> RateLimiter" where
  "run_requests e lim c [] = ([], lim)"
| "run_requests e lim c (t # ts) =
     (let (r, lim') = isAllowed e lim c t;
          (rs, lim'') = run_requests e lim' c ts
      in (r # rs, lim''))"

text \<open>The constructor: an empty table of counters. A request without headers.\<close>

definition new_RateLimiter :: "int \<Rightarrow> int \<Rightarrow> RateLimiter" where
  "new_RateLimiter windowSizeMs maxReq =
     \<lparr>requests = Map.empty, windowSize = windowSizeMs, maxRequests = maxReq\<rparr>"

definition no_headers :: rl_context where
  "no_headers = \<lparr>x_forwarded_for = None, x_real_ip = None, user_agent = None\<rparr>"

section \<open>Library primitives used by the services\<close>

subsection \<open>Bun.password\<close>

text \<open>
  \<^verbatim>\<open>Bun.password.hash(x)\<close> is a password hash (argon2id by default, bcrypt on request): each
  call draws a fresh random salt and returns an encoded string that holds the salt and the
  digest computed with it. \<^verbatim>\<open>Bun.password.verify(x, h)\<close> reads the salt out of \<open>h\<close>, hashes
  \<open>x\<close> with it and compares. The salt a call draws is an argument of the model, and the
  digest is symbolic: two hashes are the same string exactly when they have the same salt
  and the same input.
\<close>

datatype 'a phc = PHC (phc_salt: nat) (phc_input: 'a)

definition Bun_password_hash :: "nat \<Rightarrow> 'a \<Rightarrow> 'a phc" where
  "Bun_password_hash salt x = PHC salt x"

definition Bun_password_verify :: "'a \<Rightarrow> 'a phc \<Rightarrow> bool" where
  "Bun_password_verify x h = (phc_input h = x)"

subsection \<open>hono/jwt\<close>

text \<open>
  A decoded payload is a JSON object: every field may be absent. \<^verbatim>\<open>sign(payload, secret)\<close>
  serialises the payload it is given and appends the HS256 signature; it adds no field.
  \<^verbatim>\<open>verify(token, secret)\<close> throws on a string that is not a well-formed token, then on
  \<open>nbf\<close>, \<open>exp\<close> and \<open>iat\<close> when they are present (and not zero, which JavaScript takes
  for absent), then on the signature.
  A token is modelled by its payload and the secret its signature was computed with; any
  other string is \<open>Garbage\<close>. The clock of \<^verbatim>\<open>verify\<close> is in seconds.
\<close>

record AuthTokenPayload =
  userId :: "string option"
  email :: "string option"
  tokenType :: "string option"
  iat :: "int option"
  exp :: "int option"
  nbf :: "int option"

datatype token = Garbage string | Jwt AuthTokenPayload string

datatype jwt_error =
  JwtTokenInvalid | JwtTokenNotBefore | JwtTokenExpired | JwtTokenIssuedAt
  | JwtTokenSignatureMismatched

definition sign :: "AuthTokenPayload \<Rightarrow> string \<Rightarrow> token" where
  "sign payload secret = Jwt payload secret"

definition js_falsy :: "string option \<Rightarrow> bool" where
  "js_falsy v = (case v of None \<Rightarrow> True | Some s \<Rightarrow> s = [])"

definition verify :: "token \<Rightarrow> string \<Rightarrow> int \<Rightarrow> jwt_error + AuthTokenPayload" where
  "verify tok secret now_ms =
     (case tok of
        Garbage _ \<Rightarrow> Inl JwtTokenInvalid
      | Jwt payload key \<Rightarrow>
          (let now = now_ms div 1000 in
           if (case nbf payload of None \<Rightarrow> False | Some n \<Rightarrow> n \<noteq> 0 \<and> n > now)
             then Inl JwtTokenNotBefore
           else if (case exp payload of None \<Rightarrow> False | Some x \<Rightarrow> x \<noteq> 0 \<and> x \<le> now)
             then Inl JwtTokenExpired
           else if (case iat payload of None \<Rightarrow> False | Some i \<Rightarrow> i \<noteq> 0 \<and> now < i)
             then Inl JwtTokenIssuedAt
           else if key = secret then Inr payload
           else Inl JwtTokenSignatureMismatched))"

section \<open>Credential store (services/userService.ts)\<close>

text \<open>
  A row of the \<^verbatim>\<open>users\<close> table. Ids are taken to be well-formed UUID strings. The table
  is a list of rows; the whole database is passed to each operation and returned by the ones
  that write. An operation that calls \<^verbatim>\<open>NOW()\<close> or \<^verbatim>\<open>Date.now()\<close> takes the instant
  (milliseconds) as an argument.
\<close>

record User =
  user_id :: string
  user_email :: string
  password_hash :: "string phc"
  user_name :: string
  created_at :: int
  updated_at :: int
  email_verified :: bool
  password_reset_token :: "string option"
  password_reset_expires :: "int option"

record blacklist_row =
  token_hash :: "token phc"
  bl_user_id :: "string option"
  expires_at :: "int option"

record database =
  users :: "User list"
  token_blacklist :: "blacklist_row list"
  user_logout_timestamps :: "string \<rightharpoonup> int"

datatype db_error = ForeignKeyViolation

text \<open>
  What the SQL client returns for a statement: the rows it produced and the number of rows
  it touched. An \<^verbatim>\<open>UPDATE\<close> without a \<^verbatim>\<open>RETURNING\<close> clause produces no row, so the
  array is empty and only the count tells how many rows were updated (the repository's own
  \<^verbatim>\<open>BudgetService.delete\<close> reads \<^verbatim>\<open>result.count\<close>, and \<^verbatim>\<open>TransactionService.delete\<close>
  adds \<^verbatim>\<open>RETURNING id\<close> before it reads \<^verbatim>\<open>result.length\<close>).
\<close>

record 'r sql_result =
  result_rows :: "'r list"
  result_count :: nat

definition findByEmail :: "database \<Rightarrow> string \<Rightarrow> User option" where
  "findByEmail d e = List.find (\<lambda>u. user_email u = e) (users d)"

definition findById :: "database \<Rightarrow> string \<Rightarrow> User option" where
  "findById d i = List.find (\<lambda>u. user_id u = i) (users d)"

definition verifyPassword :: "string \<Rightarrow> string phc \<Rightarrow> bool" where
  "verifyPassword plainPassword hashedPassword = Bun_password_verify plainPassword hashedPassword"

definition setPasswordResetToken ::
  "env \<Rightarrow> database \<Rightarrow> int \<Rightarrow> string \<Rightarrow> string \<Rightarrow> bool \<times> database" where
  "setPasswordResetToken e d now mail tok =
     (let expires = now + PASSWORD_RESET_EXPIRY_HOURS e * 60 * 60 * 1000;
          result = \<lparr> result_rows = ([] :: User list),
                     result_count = length (filter (\<lambda>u. user_email u = mail) (users d)) \<rparr>
      in (length (result_rows result) > 0,
          d\<lparr>users := map (\<lambda>u. if user_email u = mail
                                then u\<lparr>password_reset_token := Some tok,
                                       password_reset_expires := Some expires\<rparr>
                                else u) (users d)\<rparr>))"

text \<open>
  The \<^verbatim>\<open>WHERE\<close> clause of \<^verbatim>\<open>resetPassword\<close>: the stored token equals the presented one
  and the stored expiry is strictly later than now. A \<^verbatim>\<open>NULL\<close> column satisfies neither.
\<close>

definition reset_matches :: "string \<Rightarrow> int \<Rightarrow> User \<Rightarrow> bool" where
  "reset_matches tok now u =
     (password_reset_token u = Some tok \<and>
      (case password_reset_expires u of None \<Rightarrow> False | Some x \<Rightarrow> x > now))"

definition UserService_resetPassword ::
  "database \<Rightarrow> int \<Rightarrow> nat \<Rightarrow> string \<Rightarrow> string \<Rightarrow> bool \<times> database" where
  "UserService_resetPassword d now salt tok newPassword =
     (let new_hash = Bun_password_hash salt newPassword;
          result = \<lparr> result_rows = ([] :: User list),
                     result_count = length (filter (reset_matches tok now) (users d)) \<rparr>
      in (length (result_rows result) > 0,
          d\<lparr>users := map (\<lambda>u. if reset_matches tok now u
                                then u\<lparr>password_hash := new_hash,
                                       password_reset_token := None,
                                       password_reset_expires := None\<rparr>
                                else u) (users d)\<rparr>))"

section \<open>Revocation ledger (services/tokenBlacklist.ts)\<close>

definition eight_days_ms :: int where
  "eight_days_ms = 8 * 24 * 60 * 60 * 1000"

definition blacklist_live :: "int \<Rightarrow> blacklist_row \<Rightarrow> bool" where
  "blacklist_live now r = (case expires_at r of None \<Rightarrow> True | Some x \<Rightarrow> x > now)"

text \<open>
  \<^verbatim>\<open>blacklistToken\<close>: the row holds \<^verbatim>\<open>Bun.password.hash(token)\<close>. A row with the same
  hash makes the insert a no-op; otherwise the row is added, unless its user id names no
  user (the column references \<^verbatim>\<open>users(id)\<close>), in which case the statement throws.
\<close>

definition blacklistToken ::
  "database \<Rightarrow> int \<Rightarrow> nat \<Rightarrow> token \<Rightarrow> string option \<Rightarrow> db_error + database" where
  "blacklistToken d now salt tok uid =
     (let expiresAt = now + eight_days_ms;
          row = \<lparr> token_hash = Bun_password_hash salt tok,
                  bl_user_id = (if js_falsy uid then None else uid),
                  expires_at = Some expiresAt \<rparr>
      in if list_ex (\<lambda>r. token_hash r = token_hash row) (token_blacklist d) then Inr d
         else (case bl_user_id row of
                 None \<Rightarrow> Inr (d\<lparr>token_blacklist := token_blacklist d @ [row]\<rparr>)
               | Some i \<Rightarrow>
                   (case findById d i of
                      None \<Rightarrow> Inl ForeignKeyViolation
                    | Some _ \<Rightarrow> Inr (d\<lparr>token_blacklist := token_blacklist d @ [row]\<rparr>))))"

definition isBlacklisted :: "database \<Rightarrow> int \<Rightarrow> nat \<Rightarrow> token \<Rightarrow> bool" where
  "isBlacklisted d now salt tok =
     (let tokenHash = Bun_password_hash salt tok
      in list_ex (\<lambda>r. token_hash r = tokenHash \<and> blacklist_live now r) (token_blacklist d))"

definition blacklistAllUserTokens :: "database \<Rightarrow> int \<Rightarrow> string \<Rightarrow> db_error + database" where
  "blacklistAllUserTokens d now uid =
     (case findById d uid of
        None \<Rightarrow> Inl ForeignKeyViolation
      | Some _ \<Rightarrow> Inr (d\<lparr>user_logout_timestamps := (user_logout_timestamps d)(uid \<mapsto> now)\<rparr>))"

text \<open>
  \<^verbatim>\<open>isTokenValidForUser\<close>: the stored instant is in milliseconds and is divided by 1000,
  the issued-at of a token is in seconds, so \<^verbatim>\<open>tokenIssuedAt > logoutTimestamp\<close> is
  \<open>tokenIssuedAt * 1000 > logout_at\<close>. An absent issued-at is \<^verbatim>\<open>undefined\<close>, and
  \<^verbatim>\<open>undefined > x\<close> is false.
\<close>

definition isTokenValidForUser :: "database \<Rightarrow> string \<Rightarrow> int option \<Rightarrow> bool" where
  "isTokenValidForUser d uid tokenIssuedAt =
     (case user_logout_timestamps d uid of
        None \<Rightarrow> True
      | Some logout_at \<Rightarrow>
          (case tokenIssuedAt of None \<Rightarrow> False | Some i \<Rightarrow> i * 1000 > logout_at))"

definition thirty_days_ms :: int where
  "thirty_days_ms = 30 * 24 * 60 * 60 * 1000"

definition cleanupExpired :: "database \<Rightarrow> int \<Rightarrow> database" where
  "cleanupExpired d now =
     d\<lparr> token_blacklist :=
           filter (\<lambda>r. case expires_at r of None \<Rightarrow> True | Some x \<Rightarrow> x \<ge> now) (token_blacklist d),
        user_logout_timestamps :=
           (\<lambda>k. case user_logout_timestamps d k of
                   None \<Rightarrow> None
                 | Some t \<Rightarrow> (if t < now - thirty_days_ms then None else Some t)) \<rparr>"


section \<open>Session authority (services/authService.ts)\<close>

text \<open>The user as the API returns it: the row without its password hash.\<close>

record PublicUser =
  pu_id :: string
  pu_email :: string
  pu_name :: string
  pu_created_at :: int
  pu_updated_at :: int
  pu_email_verified :: bool
  pu_password_reset_token :: "string option"
  pu_password_reset_expires :: "int option"

definition userWithoutPassword :: "User \<Rightarrow> PublicUser" where
  "userWithoutPassword u =
     \<lparr> pu_id = user_id u, pu_email = user_email u, pu_name = user_name u,
       pu_created_at = created_at u, pu_updated_at = updated_at u,
       pu_email_verified = email_verified u,
       pu_password_reset_token = password_reset_token u,
       pu_password_reset_expires = password_reset_expires u \<rparr>"

record AuthResponse =
  ar_user :: PublicUser
  accessToken :: token
  refreshToken :: token

text \<open>
  Both generators hand \<^verbatim>\<open>sign\<close> a payload of three fields: the user id, the email and
  the kind. They read no clock, and set neither \<open>iat\<close> nor \<open>exp\<close>.
\<close>

definition generateAccessToken :: "env \<Rightarrow> User \<Rightarrow> token" where
  "generateAccessToken e u =
     sign \<lparr> userId = Some (user_id u), email = Some (user_email u),
            tokenType = Some ''access'', iat = None, exp = None, nbf = None \<rparr> (JWT_SECRET e)"

definition generateRefreshToken :: "env \<Rightarrow> User \<Rightarrow> token" where
  "generateRefreshToken e u =
     sign \<lparr> userId = Some (user_id u), email = Some (user_email u),
            tokenType = Some ''refresh'', iat = None, exp = None, nbf = None \<rparr> (JWT_SECRET e)"

text \<open>
  \<^verbatim>\<open>verifyToken\<close>: any exception of \<^verbatim>\<open>verify\<close> gives null; so does a payload with a
  missing or empty required field; the kind is compared only when an expected kind is given.
\<close>

definition verifyToken :: "env \<Rightarrow> int \<Rightarrow> token \<Rightarrow> string option \<Rightarrow> AuthTokenPayload option" where
  "verifyToken e now tok expectedType =
     (case verify tok (JWT_SECRET e) now of
        Inl _ \<Rightarrow> None
      | Inr payload \<Rightarrow>
          if js_falsy (userId payload) \<or> js_falsy (email payload) \<or> js_falsy (tokenType payload)
          then None
          else if (case expectedType of None \<Rightarrow> False | Some t \<Rightarrow> tokenType payload \<noteq> Some t)
          then None
          else Some payload)"

definition verifyAccessToken :: "env \<Rightarrow> int \<Rightarrow> token \<Rightarrow> AuthTokenPayload option" where
  "verifyAccessToken e now tok = verifyToken e now tok (Some ''access'')"

definition verifyRefreshToken :: "env \<Rightarrow> int \<Rightarrow> token \<Rightarrow> AuthTokenPayload option" where
  "verifyRefreshToken e now tok = verifyToken e now tok (Some ''refresh'')"

text \<open>\<^verbatim>\<open>login\<close> throws an \<^verbatim>\<open>Error\<close>; the thrown message is the left value.\<close>

definition login :: "env \<Rightarrow> database \<Rightarrow> string \<Rightarrow> string \<Rightarrow> string + AuthResponse" where
  "login e d mail password =
     (case findByEmail d mail of
        None \<Rightarrow> Inl ''Invalid email or password''
      | Some u \<Rightarrow>
          if verifyPassword password (password_hash u)
          then Inr \<lparr> ar_user = userWithoutPassword u,
                     accessToken = generateAccessToken e u,
                     refreshToken = generateRefreshToken e u \<rparr>
          else Inl ''Invalid email or password'')"

definition getUserFromToken :: "env \<Rightarrow> database \<Rightarrow> int \<Rightarrow> token \<Rightarrow> PublicUser option" where
  "getUserFromToken e d now tok =
     (case verifyToken e now tok None of
        None \<Rightarrow> None
      | Some decoded \<Rightarrow>
          (case findById d (the (userId decoded)) of
             None \<Rightarrow> None
           | Some u \<Rightarrow> Some (userWithoutPassword u)))"

text \<open>
  \<^verbatim>\<open>validatePassword\<close>: each regular expression asks for one character of a class
  somewhere in the password.
\<close>

definition has_char_in :: "string \<Rightarrow> string \<Rightarrow> bool" where
  "has_char_in cls s = list_ex (\<lambda>ch. ch \<in> set cls) s"

record validation =
  valid :: bool
  errors :: "string list"

definition validatePassword :: "string \<Rightarrow> validation" where
  "validatePassword password =
     (let errs =
        (if length password < 8 then [''Password must be at least 8 characters long''] else []) @
        (if has_char_in ''abcdefghijklmnopqrstuvwxyz'' password then []
         else [''Password must contain at least one lowercase letter'']) @
        (if has_char_in ''ABCDEFGHIJKLMNOPQRSTUVWXYZ'' password then []
         else [''Password must contain at least one uppercase letter'']) @
        (if has_char_in ''0123456789'' password then []
         else [''Password must contain at least one number'']) @
        (if has_char_in ''@$!%*?&'' password then []
         else [''Password must contain at least one special character (@$!%*?&)''])
      in \<lparr> valid = (errs = []), errors = errs \<rparr>)"

text \<open>\<^verbatim>\<open>errors.join(", ")\<close>.\<close>

fun js_join :: "string list \<Rightarrow> string" where
  "js_join [] = []"
| "js_join [x] = x"
| "js_join (x # y # ys) = x @ '', '' @ js_join (y # ys)"

text \<open>
  \<^verbatim>\<open>AuthService.resetPassword\<close>: the body of its \<^verbatim>\<open>try\<close> block, with the thrown message
  as the left value, and the method itself, whose \<^verbatim>\<open>catch\<close> turns every throw into
  \<^verbatim>\<open>false\<close>.
\<close>

definition resetPassword_try ::
  "database \<Rightarrow> int \<Rightarrow> nat \<Rightarrow> string \<Rightarrow> string \<Rightarrow> (string + bool) \<times> database" where
  "resetPassword_try d now salt tok newPassword =
     (if valid (validatePassword newPassword) then
        (let (ok, d') = UserService_resetPassword d now salt tok newPassword in
         if ok then (Inr True, d') else (Inl ''Invalid or expired reset token'', d'))
      else (Inl (''Password validation failed: '' @ js_join (errors (validatePassword newPassword))), d))"

definition AuthService_resetPassword ::
  "database \<Rightarrow> int \<Rightarrow> nat \<Rightarrow> string \<Rightarrow> string \<Rightarrow> bool \<times> database" where
  "AuthService_resetPassword d now salt tok newPassword =
     (case resetPassword_try d now salt tok newPassword of
        (Inr b, d') \<Rightarrow> (b, d')
      | (Inl _, d') \<Rightarrow> (False, d'))"

section \<open>Transport binding (routes/auth.ts, middleware/auth.ts)\<close>

text \<open>
  A JSON response: the status, the fields of the body, and what the handler does to the two
  cookies. A validation failure of the request body carries the messages of the schema.
\<close>

record response =
  status :: nat
  success :: bool
  message :: "string option"
  error :: "string option"
  issues :: "string list"
  data_user :: "PublicUser option"
  set_access_token :: "token option"
  set_refresh_token :: "token option"
  cookies_cleared :: bool

definition json_error :: "nat \<Rightarrow> string \<Rightarrow> response" where
  "json_error st msg =
     \<lparr> status = st, success = False, message = None, error = Some msg, issues = [],
       data_user = None, set_access_token = None, set_refresh_token = None,
       cookies_cleared = False \<rparr>"

definition json_ok :: "string option \<Rightarrow> PublicUser option \<Rightarrow> response" where
  "json_ok msg u =
     \<lparr> status = 200, success = True, message = msg, error = None, issues = [],
       data_user = u, set_access_token = None, set_refresh_token = None,
       cookies_cleared = False \<rparr>"

definition json_invalid :: "string list \<Rightarrow> response" where
  "json_invalid is =
     \<lparr> status = 400, success = False, message = None, error = None, issues = is,
       data_user = None, set_access_token = None, set_refresh_token = None,
       cookies_cleared = False \<rparr>"

text \<open>\<^verbatim>\<open>!accessToken\<close>: the cookie is absent or is the empty string.\<close>

definition no_token :: "token option \<Rightarrow> bool" where
  "no_token c = (case c of None \<Rightarrow> True | Some (Garbage s) \<Rightarrow> s = [] | Some (Jwt _ _) \<Rightarrow> False)"

text \<open>
  \<^verbatim>\<open>POST /auth/login\<close>. The schema asks for a well-formed email address (the test of the
  validation library is the parameter \<open>is_email\<close>) and a password that is not empty.
\<close>

definition loginSchema :: "(string \<Rightarrow> bool) \<Rightarrow> string \<Rightarrow> string \<Rightarrow> string list" where
  "loginSchema is_email mail password =
     (if is_email mail then [] else [''Invalid email address'']) @
     (if length password \<ge> 1 then [] else [''Password is required''])"

definition post_login ::
  "(string \<Rightarrow> bool) \<Rightarrow> env \<Rightarrow> database \<Rightarrow> string \<Rightarrow> string \<Rightarrow> response" where
  "post_login is_email e d mail password =
     (if loginSchema is_email mail password \<noteq> [] then json_invalid (loginSchema is_email mail password)
      else
        (case login e d mail password of
           Inr authResponse \<Rightarrow>
             (json_ok (Some ''Login successful'') (Some (ar_user authResponse)))
               \<lparr> set_access_token := Some (accessToken authResponse),
                 set_refresh_token := Some (refreshToken authResponse) \<rparr>
         | Inl msg \<Rightarrow> json_error 401 msg))"

text \<open>\<^verbatim>\<open>GET /auth/me\<close>.\<close>

definition get_me :: "env \<Rightarrow> database \<Rightarrow> int \<Rightarrow> token option \<Rightarrow> response" where
  "get_me e d now cookie =
     (if no_token cookie then json_error 401 ''No access token provided''
      else
        (case getUserFromToken e d now (the cookie) of
           None \<Rightarrow> json_error 401 ''Invalid or expired access token''
         | Some u \<Rightarrow> json_ok None (Some u)))"

text \<open>
  \<^verbatim>\<open>POST /auth/reset-password\<close>. The schema asks for a token that is not empty and a
  password of eight characters or more. The handler awaits \<^verbatim>\<open>AuthService.resetPassword\<close>
  and answers 200; its \<^verbatim>\<open>catch\<close> answers 400 when the call throws.
\<close>

definition resetPasswordSchema :: "string \<Rightarrow> string \<Rightarrow> string list" where
  "resetPasswordSchema tok password =
     (if length tok \<ge> 1 then [] else [''Reset token is required'']) @
     (if length password \<ge> 8 then [] else [''Password must be at least 8 characters long''])"

definition post_reset_password ::
  "database \<Rightarrow> int \<Rightarrow> nat \<Rightarrow> string \<Rightarrow> string \<Rightarrow> response \<times> database" where
  "post_reset_password d now salt tok password =
     (if resetPasswordSchema tok password \<noteq> [] then (json_invalid (resetPasswordSchema tok password), d)
      else
        (let (_, d') = AuthService_resetPassword d now salt tok password
         in (json_ok (Some ''Password reset successfully'') None, d')))"

text \<open>
  \<^verbatim>\<open>POST /auth/logout\<close>: a cookie that verifies as an access token is blacklisted; the
  answer is 200 and both cookies are cleared, also when blacklisting throws.
\<close>

definition post_logout ::
  "env \<Rightarrow> database \<Rightarrow> int \<Rightarrow> nat \<Rightarrow> token option \<Rightarrow> response \<times> database" where
  "post_logout e d now salt cookie =
     (let d' =
        (if no_token cookie then d
         else
           (case verifyAccessToken e now (the cookie) of
              None \<Rightarrow> d
            | Some decoded \<Rightarrow>
                (case blacklistToken d now salt (the cookie) (userId decoded) of
                   Inl _ \<Rightarrow> d
                 | Inr d1 \<Rightarrow> d1)))
      in ((json_ok (Some ''Logout successful'') None)\<lparr>cookies_cleared := True\<rparr>, d'))"

text \<open>
  \<^verbatim>\<open>POST /auth/logout-all\<close>: the argument is the token that follows \<^verbatim>\<open>Bearer \<close> in the
  Authorization header, if the header is there and starts so.
\<close>

definition post_logout_all ::
  "env \<Rightarrow> database \<Rightarrow> int \<Rightarrow> token option \<Rightarrow> response \<times> database" where
  "post_logout_all e d now bearer =
     (case bearer of
        None \<Rightarrow> (json_error 401 ''No token provided'', d)
      | Some tok \<Rightarrow>
          (case verifyToken e now tok None of
             None \<Rightarrow> (json_error 401 ''Invalid token'', d)
           | Some decoded \<Rightarrow>
               (case blacklistAllUserTokens d now (the (userId decoded)) of
                  Inl _ \<Rightarrow> (json_error 500 ''Logout failed'', d)
                | Inr d' \<Rightarrow> (json_ok (Some ''Logged out from all devices'') None, d'))))"

text \<open>
  \<^verbatim>\<open>authMiddleware\<close>, the gate of every protected route: it answers 401 itself or sets the
  user and calls the next handler.
\<close>

datatype mw_outcome = Rejected response | Next PublicUser

definition authMiddleware ::
  "env \<Rightarrow> database \<Rightarrow> int \<Rightarrow> nat \<Rightarrow> token option \<Rightarrow> mw_outcome" where
  "authMiddleware e d now salt cookie =
     (if no_token cookie
      then Rejected (json_error 401 ''No access token provided. Please login first.'')
      else
        (let accessToken = the cookie in
         if isBlacklisted d now salt accessToken
         then Rejected (json_error 401 ''Token has been invalidated. Please login again.'')
         else
           (case verifyToken e now accessToken None of
              None \<Rightarrow>
                Rejected (json_error 401 ''Invalid or expired access token. Please refresh your session.'')
            | Some decoded \<Rightarrow>
                if \<not> isTokenValidForUser d (the (userId decoded)) (iat decoded)
                then Rejected (json_error 401 ''Session has been terminated. Please login again.'')
                else
                  (case getUserFromToken e d now accessToken of
                     None \<Rightarrow>
                       Rejected (json_error 401 ''Invalid or expired access token. Please refresh your session.'')
                   | Some u \<Rightarrow> Next u))))"

text \<open>The status a protected route answers with at the gate: 401, or none when it goes on.\<close>

definition gate_status :: "mw_outcome \<Rightarrow> nat option" where
  "gate_status r = (case r of Rejected resp \<Rightarrow> Some (status resp) | Next _ \<Rightarrow> None)"

section \<open>A small database for the examples\<close>

definition env0 :: env where
  "env0 = default_env ''0123456789abcdef0123456789abcdef''"

definition alice :: User where
  "alice =
     \<lparr> user_id = ''6f1c2b9e-0c4d-4e7a-9f51-2f0f5f3a9b10'', user_email = ''alice@example.com'',
       password_hash = Bun_password_hash 7 ''Correct-horse1!'', user_name = ''Alice'',
       created_at = 0, updated_at = 0, email_verified = False,
       password_reset_token = None, password_reset_expires = None \<rparr>"

definition db0 :: database where
  "db0 = \<lparr> users = [alice], token_blacklist = [], user_logout_timestamps = Map.empty \<rparr>"


text \<open>
  The same database after a logout-all of Alice at instant 1000000, and after a reset token
  was stored for her at instant 0 (it expires one hour later). A stand-in for the email test
  of the validation library.
\<close>

definition logged_out_db :: database where
  "logged_out_db = db0\<lparr>user_logout_timestamps := [user_id alice \<mapsto> 1000000]\<rparr>"

definition reset_db :: database where
  "reset_db = snd (setPasswordResetToken env0 db0 0 ''alice@example.com'' ''5f2d9c'')"

definition has_at :: "string \<Rightarrow> bool" where
  "has_at s = (CHR ''@'' \<in> set s)"

section \<open>Unfolding rules\<close>

lemmas lib_defs = Bun_password_hash_def Bun_password_verify_def sign_def verify_def js_falsy_def

lemmas store_defs = findByEmail_def findById_def verifyPassword_def reset_matches_def
  UserService_resetPassword_def setPasswordResetToken_def

lemmas ledger_defs = blacklistToken_def isBlacklisted_def blacklist_live_def
  blacklistAllUserTokens_def isTokenValidForUser_def eight_days_ms_def

lemmas authority_defs = userWithoutPassword_def generateAccessToken_def generateRefreshToken_def
  verifyToken_def verifyAccessToken_def verifyRefreshToken_def login_def getUserFromToken_def
  has_char_in_def validatePassword_def resetPassword_try_def AuthService_resetPassword_def

lemmas route_defs = json_error_def json_ok_def json_invalid_def no_token_def loginSchema_def
  post_login_def get_me_def resetPasswordSchema_def post_reset_password_def post_logout_def
  post_logout_all_def authMiddleware_def gate_status_def

lemmas fixture_defs = env0_def default_env_def alice_def db0_def

section \<open>The request gate\<close>

lemma isAllowed_count:
  assumes "requests lim (getClientId e c) = Some d" "t \<le> resetTime d" "count d < maxRequests lim"
  shows "isAllowed e lim c t =
           (\<lparr>allowed = True, retryAfter = None\<rparr>,
            lim\<lparr>requests := (requests lim)(getClientId e c \<mapsto> d\<lparr>count := count d + 1\<rparr>)\<rparr>)"
  using assms by (simp add: isAllowed_def Let_def)

lemma isAllowed_refuse:
  assumes "requests lim (getClientId e c) = Some d" "t \<le> resetTime d" "maxRequests lim \<le> count d"
  shows "isAllowed e lim c t =
           (\<lparr>allowed = False, retryAfter = Some (ceil_seconds (resetTime d - t))\<rparr>, lim)"
  using assms by (simp add: isAllowed_def Let_def)

lemma isAllowed_fresh:
  assumes "(case requests lim (getClientId e c) of None \<Rightarrow> True | Some d \<Rightarrow> resetTime d < t)"
  shows "isAllowed e lim c t =
           (\<lparr>allowed = True, retryAfter = None\<rparr>,
            lim\<lparr>requests := (requests lim)(getClientId e c \<mapsto>
                   \<lparr>count = 1, resetTime = t + windowSize lim\<rparr>)\<rparr>)"
  using assms by (auto simp: isAllowed_def Let_def split: option.splits)

text \<open>
  Requests inside a window that has room for them are all allowed, and each adds one to the
  count of the window; the reset time stays.
\<close>

lemma run_in_window:
  assumes "requests lim (getClientId e c) = Some d"
    and "list_all (\<lambda>t. t \<le> resetTime d) ts"
    and "count d + int (length ts) \<le> maxRequests lim"
  shows "run_requests e lim c ts =
           (replicate (length ts) \<lparr>allowed = True, retryAfter = None\<rparr>,
            lim\<lparr>requests := (requests lim)(getClientId e c \<mapsto>
                   d\<lparr>count := count d + int (length ts)\<rparr>)\<rparr>)"
  using assms
proof (induction ts arbitrary: lim d)
  case Nil
  then show ?case by (simp add: map_upd_triv)
next
  case (Cons t ts)
  let ?d' = "d\<lparr>count := count d + 1\<rparr>"
  let ?lim' = "lim\<lparr>requests := (requests lim)(getClientId e c \<mapsto> ?d')\<rparr>"
  have step: "isAllowed e lim c t = (\<lparr>allowed = True, retryAfter = None\<rparr>, ?lim')"
    using Cons.prems by (intro isAllowed_count) auto
  have rest: "run_requests e ?lim' c ts =
           (replicate (length ts) \<lparr>allowed = True, retryAfter = None\<rparr>,
            ?lim'\<lparr>requests := (requests ?lim')(getClientId e c \<mapsto>
                    ?d'\<lparr>count := count ?d' + int (length ts)\<rparr>)\<rparr>)"
    using Cons.prems by (intro Cons.IH) auto
  have fin: "?lim'\<lparr>requests := (requests ?lim')(getClientId e c \<mapsto>
                    ?d'\<lparr>count := count ?d' + int (length ts)\<rparr>)\<rparr>
      = lim\<lparr>requests := (requests lim)(getClientId e c \<mapsto>
                    d\<lparr>count := count d + int (length (t # ts))\<rparr>)\<rparr>"
    by (simp add: add.assoc)
  have "run_requests e lim c (t # ts) =
          (\<lparr>allowed = True, retryAfter = None\<rparr> # fst (run_requests e ?lim' c ts),
           snd (run_requests e ?lim' c ts))"
    by (simp add: step split: prod.splits)
  also have "\<dots> = (replicate (length (t # ts)) \<lparr>allowed = True, retryAfter = None\<rparr>,
            lim\<lparr>requests := (requests lim)(getClientId e c \<mapsto>
                    d\<lparr>count := count d + int (length (t # ts))\<rparr>)\<rparr>)"
    unfolding rest fst_conv snd_conv fin by simp
  finally show ?case .
qed

lemma run_window_full:
  assumes fresh: "(case requests lim (getClientId e c) of None \<Rightarrow> True | Some d \<Rightarrow> resetTime d < t0)"
    and inside: "list_all (\<lambda>t. t \<le> t0 + windowSize lim) ts"
    and ceiling: "1 + int (length ts) \<le> maxRequests lim"
  shows "run_requests e lim c (t0 # ts) =
           (replicate (1 + length ts) \<lparr>allowed = True, retryAfter = None\<rparr>,
            lim\<lparr>requests := (requests lim)(getClientId e c \<mapsto>
                   \<lparr>count = 1 + int (length ts), resetTime = t0 + windowSize lim\<rparr>)\<rparr>)"
proof -
  let ?d = "\<lparr>count = 1, resetTime = t0 + windowSize lim\<rparr>"
  let ?lim' = "lim\<lparr>requests := (requests lim)(getClientId e c \<mapsto> ?d)\<rparr>"
  have first: "isAllowed e lim c t0 = (\<lparr>allowed = True, retryAfter = None\<rparr>, ?lim')"
    using fresh by (rule isAllowed_fresh)
  have rest: "run_requests e ?lim' c ts =
           (replicate (length ts) \<lparr>allowed = True, retryAfter = None\<rparr>,
            ?lim'\<lparr>requests := (requests ?lim')(getClientId e c \<mapsto>
                    ?d\<lparr>count := count ?d + int (length ts)\<rparr>)\<rparr>)"
    using inside ceiling by (intro run_in_window) auto
  have "run_requests e lim c (t0 # ts) =
          (\<lparr>allowed = True, retryAfter = None\<rparr> # fst (run_requests e ?lim' c ts),
           snd (run_requests e ?lim' c ts))"
    by (simp add: first split: prod.splits)
  also have "\<dots> = (replicate (1 + length ts) \<lparr>allowed = True, retryAfter = None\<rparr>,
            lim\<lparr>requests := (requests lim)(getClientId e c \<mapsto>
                   \<lparr>count = 1 + int (length ts), resetTime = t0 + windowSize lim\<rparr>)\<rparr>)"
    unfolding rest fst_conv snd_conv by simp
  finally show ?thesis .
qed

lemma ceil_seconds_pos: "0 < ceil_seconds d \<longleftrightarrow> 0 < d"
  unfolding ceil_seconds_def using pos_imp_zdiv_neg_iff [of 1000 "- d"] by simp

lemma ceil_seconds_nonneg: "0 \<le> d \<Longrightarrow> 0 \<le> ceil_seconds d"
  unfolding ceil_seconds_def using div_nonpos_pos_le0 [of "- d" 1000] by simp

lemma js_toString_not_empty: "js_toString i \<noteq> []"
proof -
  have digits: "nat_digits n \<noteq> []" for n
    by (subst nat_digits.simps) simp
  show ?thesis by (simp add: js_toString_def digits)
qed

text \<open>
  C6, as stated, fails at the deadline of the window. With ceiling 1 and a window of 1000
  ms opened by an allowed request at instant 0, the second request at instant 1000 is still
  counted against that window (the window is replaced only when now is strictly past the
  reset time) and is refused with a retry-after of 0 seconds, which is not positive. It also
  fails for the ceiling 0: the request that opens a window is allowed without a look at the
  ceiling.
\<close>

theorem retry_after_zero_at_deadline:
  "isAllowed (default_env ''k'') (new_RateLimiter 1000 1) no_headers 0 =
     (\<lparr>allowed = True, retryAfter = None\<rparr>,
      snd (isAllowed (default_env ''k'') (new_RateLimiter 1000 1) no_headers 0))
   \<and> fst (isAllowed (default_env ''k'')
          (snd (isAllowed (default_env ''k'') (new_RateLimiter 1000 1) no_headers 0))
          no_headers 1000) = \<lparr>allowed = False, retryAfter = Some 0\<rparr>
   \<and> fst (isAllowed (default_env ''k'') (new_RateLimiter 1000 0) no_headers 0) =
       \<lparr>allowed = True, retryAfter = None\<rparr>"
  by (simp add: isAllowed_def new_RateLimiter_def Let_def ceil_seconds_def)

text \<open>
  C6, amended. A client opens a window at \<open>t0\<close> (it has no entry, or its entry is strictly
  past its reset time) and sends as many requests as the ceiling allows, the first at
  \<open>t0\<close> and the others at instants \<open>ts\<close> not after the deadline \<open>t0 + windowSize\<close>: all of
  them are allowed. The next request at an instant \<open>t\<close> not after the deadline is refused
  and leaves the table as it is; its retry-after is the number of seconds to the deadline,
  rounded up, which is never negative and is positive exactly when \<open>t\<close> is strictly before
  the deadline; the middleware answers 429 with that value in the body and in the
  Retry-After header. A request at an instant \<open>t'\<close> strictly after the deadline is allowed
  and replaces the entry by a fresh window: count 1, reset time \<open>t' + windowSize\<close>.
\<close>

theorem rate_limit_window:
  assumes fresh: "(case requests lim (getClientId e c) of None \<Rightarrow> True | Some d \<Rightarrow> resetTime d < t0)"
    and ceiling: "maxRequests lim = 1 + int (length ts)"
    and inside: "list_all (\<lambda>t. t \<le> t0 + windowSize lim) ts"
    and t_in: "t \<le> t0 + windowSize lim"
    and t_out: "t0 + windowSize lim < t'"
  shows "(let lim1 = snd (run_requests e lim c (t0 # ts)); deadline = t0 + windowSize lim in
          fst (run_requests e lim c (t0 # ts)) =
            replicate (1 + length ts) \<lparr>allowed = True, retryAfter = None\<rparr>
        \<and> isAllowed e lim1 c t =
            (\<lparr>allowed = False, retryAfter = Some (ceil_seconds (deadline - t))\<rparr>, lim1)
        \<and> 0 \<le> ceil_seconds (deadline - t)
        \<and> (0 < ceil_seconds (deadline - t) \<longleftrightarrow> t < deadline)
        \<and> fst (createRateLimitMiddleware e lim1 c t) =
            RateLimited \<lparr> rl_status = 429,
               rl_error = ''Rate limit exceeded. Please try again later.'',
               rl_retryAfter = Some (ceil_seconds (deadline - t)),
               rl_header_Retry_After = js_toString (ceil_seconds (deadline - t)),
               rl_header_Remaining = ''0'' \<rparr>
        \<and> isAllowed e lim1 c t' =
            (\<lparr>allowed = True, retryAfter = None\<rparr>,
             lim1\<lparr>requests := (requests lim1)(getClientId e c \<mapsto>
                    \<lparr>count = 1, resetTime = t' + windowSize lim\<rparr>)\<rparr>))"
proof -
  let ?lim1 = "lim\<lparr>requests := (requests lim)(getClientId e c \<mapsto>
                   \<lparr>count = 1 + int (length ts), resetTime = t0 + windowSize lim\<rparr>)\<rparr>"
  let ?d = "\<lparr>count = 1 + int (length ts), resetTime = t0 + windowSize lim\<rparr>"
  have run: "run_requests e lim c (t0 # ts) =
           (replicate (1 + length ts) \<lparr>allowed = True, retryAfter = None\<rparr>, ?lim1)"
    using fresh inside ceiling by (intro run_window_full) auto
  have entry: "requests ?lim1 (getClientId e c) = Some ?d" by simp
  have refuse: "isAllowed e ?lim1 c t =
      (\<lparr>allowed = False, retryAfter = Some (ceil_seconds (t0 + windowSize lim - t))\<rparr>, ?lim1)"
    using isAllowed_refuse [OF entry, of t] t_in ceiling by simp
  have nonneg: "0 \<le> ceil_seconds (t0 + windowSize lim - t)"
    using t_in by (intro ceil_seconds_nonneg) simp
  have pos: "0 < ceil_seconds (t0 + windowSize lim - t) \<longleftrightarrow> t < t0 + windowSize lim"
    by (simp add: ceil_seconds_pos)
  have mw: "fst (createRateLimitMiddleware e ?lim1 c t) =
            RateLimited \<lparr> rl_status = 429,
               rl_error = ''Rate limit exceeded. Please try again later.'',
               rl_retryAfter = Some (ceil_seconds (t0 + windowSize lim - t)),
               rl_header_Retry_After = js_toString (ceil_seconds (t0 + windowSize lim - t)),
               rl_header_Remaining = ''0'' \<rparr>"
    unfolding createRateLimitMiddleware_def refuse by (simp add: js_or_def js_toString_not_empty)
  have again: "isAllowed e ?lim1 c t' =
            (\<lparr>allowed = True, retryAfter = None\<rparr>,
             ?lim1\<lparr>requests := (requests ?lim1)(getClientId e c \<mapsto>
                    \<lparr>count = 1, resetTime = t' + windowSize ?lim1\<rparr>)\<rparr>)"
    using t_out by (intro isAllowed_fresh) simp
  show ?thesis
    unfolding Let_def run fst_conv snd_conv
    using refuse nonneg pos mw again by simp
qed

theorem rate_limit_window_witness:
  "(case requests (new_RateLimiter 1000 2) (getClientId (default_env ''k'') no_headers) of
      None \<Rightarrow> True | Some d \<Rightarrow> resetTime d < 0)
   \<and> maxRequests (new_RateLimiter 1000 2) = 1 + int (length [500::int])
   \<and> list_all (\<lambda>t. t \<le> 0 + windowSize (new_RateLimiter 1000 2)) [500]
   \<and> (700::int) \<le> 0 + windowSize (new_RateLimiter 1000 2)
   \<and> 0 + windowSize (new_RateLimiter 1000 2) < (1001::int)
   \<and> fst (run_requests (default_env ''k'') (new_RateLimiter 1000 2) no_headers [0, 500]) =
        [\<lparr>allowed = True, retryAfter = None\<rparr>, \<lparr>allowed = True, retryAfter = None\<rparr>]
   \<and> fst (isAllowed (default_env ''k'')
          (snd (run_requests (default_env ''k'') (new_RateLimiter 1000 2) no_headers [0, 500]))
          no_headers 700) = \<lparr>allowed = False, retryAfter = Some 1\<rparr>
   \<and> fst (isAllowed (default_env ''k'')
          (snd (run_requests (default_env ''k'') (new_RateLimiter 1000 2) no_headers [0, 500]))
          no_headers 1001) = \<lparr>allowed = True, retryAfter = None\<rparr>"
  using rate_limit_window [where lim = "new_RateLimiter 1000 2" and e = "default_env ''k''"
      and c = no_headers and ?t0.0 = 0 and ts = "[500]" and t = 700 and t' = 1001]
  by (simp add: new_RateLimiter_def Let_def ceil_seconds_def)


section \<open>The revocation ledger\<close>

text \<open>
  A lookup draws its own salt. When no stored hash carries that salt, nothing matches,
  whatever was blacklisted before.
\<close>

lemma isBlacklisted_fresh_salt:
  assumes "list_all (\<lambda>r. phc_salt (token_hash r) \<noteq> salt) (token_blacklist d)"
  shows "\<not> isBlacklisted d now salt tok"
  using assms
  by (auto simp: isBlacklisted_def Bun_password_hash_def list_all_iff list_ex_iff)

text \<open>The conflict clause fires only when the very same hash, salt included, is stored.\<close>

lemma blacklistToken_conflict:
  assumes "list_ex (\<lambda>r. token_hash r = PHC salt tok) (token_blacklist d)"
  shows "blacklistToken d now salt tok uid = Inr d"
  using assms by (simp add: blacklistToken_def Bun_password_hash_def)

lemma isTokenValidForUser_no_timestamp:
  "user_logout_timestamps d uid = None \<Longrightarrow> isTokenValidForUser d uid issued"
  by (simp add: isTokenValidForUser_def)

lemma isTokenValidForUser_strict:
  "user_logout_timestamps d uid = Some l \<Longrightarrow>
     isTokenValidForUser d uid (Some i) \<longleftrightarrow> l < i * 1000"
  by (simp add: isTokenValidForUser_def)

lemma isTokenValidForUser_no_iat:
  "user_logout_timestamps d uid = Some l \<Longrightarrow> \<not> isTokenValidForUser d uid None"
  by (simp add: isTokenValidForUser_def)

text \<open>
  C1. Alice logs out at instant 1000 with her access token in the cookie: the route answers
  200 and stores one blacklist row, the hash of the token under the salt drawn by that call.
  At instant 2000 the same token is presented to the gate. The lookup hashes it again, under
  another salt, finds no row, and the gate lets the request through as Alice.
\<close>

theorem logout_does_not_revoke:
  "post_logout env0 db0 1000 1 (Some (generateAccessToken env0 alice)) =
     ((json_ok (Some ''Logout successful'') None)\<lparr>cookies_cleared := True\<rparr>,
      db0\<lparr>token_blacklist :=
            [\<lparr> token_hash = PHC 1 (generateAccessToken env0 alice),
                bl_user_id = Some (user_id alice),
                expires_at = Some (1000 + eight_days_ms) \<rparr>]\<rparr>)
   \<and> isBlacklisted (snd (post_logout env0 db0 1000 1 (Some (generateAccessToken env0 alice))))
         2000 2 (generateAccessToken env0 alice) = False
   \<and> authMiddleware env0 (snd (post_logout env0 db0 1000 1 (Some (generateAccessToken env0 alice))))
         2000 2 (Some (generateAccessToken env0 alice)) = Next (userWithoutPassword alice)"
  by (simp add: lib_defs store_defs ledger_defs authority_defs route_defs fixture_defs)

text \<open>
  C8. The same token is blacklisted twice, at instants 1000 and 2000. The second call hashes
  the token under its own salt, so its row does not conflict with the first one: it does not
  throw, and the table now holds two rows.
\<close>

theorem blacklist_twice_adds_row:
  "blacklistToken db0 1000 1 (generateAccessToken env0 alice) (Some (user_id alice)) =
     Inr (db0\<lparr>token_blacklist :=
            [\<lparr> token_hash = PHC 1 (generateAccessToken env0 alice),
                bl_user_id = Some (user_id alice),
                expires_at = Some (1000 + eight_days_ms) \<rparr>]\<rparr>)
   \<and> blacklistToken
        (db0\<lparr>token_blacklist :=
            [\<lparr> token_hash = PHC 1 (generateAccessToken env0 alice),
                bl_user_id = Some (user_id alice),
                expires_at = Some (1000 + eight_days_ms) \<rparr>]\<rparr>)
        2000 2 (generateAccessToken env0 alice) (Some (user_id alice)) =
     Inr (db0\<lparr>token_blacklist :=
            [\<lparr> token_hash = PHC 1 (generateAccessToken env0 alice),
                bl_user_id = Some (user_id alice),
                expires_at = Some (1000 + eight_days_ms) \<rparr>,
             \<lparr> token_hash = PHC 2 (generateAccessToken env0 alice),
                bl_user_id = Some (user_id alice),
                expires_at = Some (2000 + eight_days_ms) \<rparr>]\<rparr>)"
  by (simp add: lib_defs store_defs ledger_defs authority_defs route_defs fixture_defs)

section \<open>The gate of protected routes\<close>

text \<open>A token the service issued passes \<^verbatim>\<open>verify\<close> at every instant.\<close>

lemma issued_access_token_verifies:
  "verify (generateAccessToken e u) (JWT_SECRET e) now =
     Inr \<lparr> userId = Some (user_id u), email = Some (user_email u),
           tokenType = Some ''access'', iat = None, exp = None, nbf = None \<rparr>"
  by (simp add: generateAccessToken_def sign_def verify_def)

text \<open>A token that does carry an expiry is refused as expired once the expiry is reached.\<close>

lemma verify_expired:
  "exp p = Some x \<Longrightarrow> x \<noteq> 0 \<Longrightarrow> x \<le> now div 1000 \<Longrightarrow>
     (case nbf p of None \<Rightarrow> True | Some n \<Rightarrow> n = 0 \<or> n \<le> now div 1000) \<Longrightarrow>
     verify (Jwt p k) secret now = Inl JwtTokenExpired"
  by (auto simp: verify_def Let_def split: option.splits)

text \<open>
  What the gate checks: the cookie holds a token that is not found in the blacklist, that
  \<^verbatim>\<open>verify\<close> accepts, whose three required fields are there, that the logout-all
  instant of its subject does not rule out, and whose subject is a user. The kind of the
  token is not among the conditions.
\<close>

lemma authMiddleware_accepts_iff:
  "(\<exists>u. authMiddleware e d now salt cookie = Next u) \<longleftrightarrow>
     (\<exists>tok p uid. cookie = Some tok \<and> \<not> isBlacklisted d now salt tok
        \<and> verify tok (JWT_SECRET e) now = Inr p
        \<and> userId p = Some uid \<and> uid \<noteq> [] \<and> \<not> js_falsy (email p) \<and> \<not> js_falsy (tokenType p)
        \<and> isTokenValidForUser d uid (iat p)
        \<and> findById d uid \<noteq> None)"
  by (cases cookie; cases "the cookie")
     (auto simp: authMiddleware_def no_token_def verifyToken_def getUserFromToken_def Let_def
        js_falsy_def verify_def
        split: option.splits sum.splits if_splits)

text \<open>
  C2. Alice's refresh token is put in the access-token cookie. \<^verbatim>\<open>verifyAccessToken\<close>
  refuses it, but the gate calls \<^verbatim>\<open>verifyToken\<close> without an expected kind and lets the
  request through as Alice.
\<close>

theorem refresh_token_passes_gate:
  "verifyAccessToken env0 5000 (generateRefreshToken env0 alice) = None
   \<and> authMiddleware env0 db0 5000 2 (Some (generateRefreshToken env0 alice)) =
       Next (userWithoutPassword alice)"
  by (simp add: lib_defs store_defs ledger_defs authority_defs route_defs fixture_defs)

text \<open>
  C3. The tokens issued for Alice carry no expiry (and no issued-at): their payload has the
  user id, the email and the kind only. The access token issued at instant 1000 is accepted
  by the gate 901 seconds later, past the 900 seconds of the access cookie, and ten years
  later.
\<close>

theorem issued_token_outlives_ttl:
  "generateAccessToken env0 alice =
     Jwt \<lparr> userId = Some (user_id alice), email = Some (user_email alice),
           tokenType = Some ''access'', iat = None, exp = None, nbf = None \<rparr> (JWT_SECRET env0)
   \<and> generateRefreshToken env0 alice =
     Jwt \<lparr> userId = Some (user_id alice), email = Some (user_email alice),
           tokenType = Some ''refresh'', iat = None, exp = None, nbf = None \<rparr> (JWT_SECRET env0)
   \<and> COOKIE_ACCESS_TOKEN_MAX_AGE env0 = 900
   \<and> authMiddleware env0 db0 (1000 + 901 * 1000) 2 (Some (generateAccessToken env0 alice)) =
       Next (userWithoutPassword alice)
   \<and> authMiddleware env0 db0 (1000 + 10 * 365 * 24 * 60 * 60 * 1000) 2
        (Some (generateAccessToken env0 alice)) = Next (userWithoutPassword alice)"
  by (simp add: lib_defs store_defs ledger_defs authority_defs route_defs fixture_defs)

text \<open>
  C4. Alice logs out of all devices at instant 1000000. She logs in again afterwards with
  the right password and is handed a new access token. That token has no issued-at, so the
  comparison with the logout instant is false, and at instant 5000000 the gate answers 401,
  session terminated.
\<close>

theorem login_after_logout_all_rejected:
  "fst (post_logout_all env0 db0 1000000 (Some (generateAccessToken env0 alice))) =
     json_ok (Some ''Logged out from all devices'') None
   \<and> user_logout_timestamps
        (snd (post_logout_all env0 db0 1000000 (Some (generateAccessToken env0 alice))))
        (user_id alice) = Some 1000000
   \<and> login env0 (snd (post_logout_all env0 db0 1000000 (Some (generateAccessToken env0 alice))))
        ''alice@example.com'' ''Correct-horse1!'' =
      Inr \<lparr> ar_user = userWithoutPassword alice,
            accessToken = generateAccessToken env0 alice,
            refreshToken = generateRefreshToken env0 alice \<rparr>
   \<and> authMiddleware env0
        (snd (post_logout_all env0 db0 1000000 (Some (generateAccessToken env0 alice))))
        5000000 2 (Some (generateAccessToken env0 alice)) =
      Rejected (json_error 401 ''Session has been terminated. Please login again.'')"
  by (simp add: lib_defs store_defs ledger_defs authority_defs route_defs fixture_defs)

section \<open>Login\<close>

text \<open>
  C7. Two login requests pass the schema; the email of the first is not registered, the
  email of the second is registered and its password is wrong. \<^verbatim>\<open>AuthService.login\<close>
  throws the message "Invalid email or password" for both, and the route answers both with
  status 401 and a body whose success flag is false and whose error is that message, with
  no user and no cookie set: the two responses are the same, field by field.
\<close>

theorem login_failures_indistinguishable:
  assumes "findByEmail d mail1 = None"
    and "findByEmail d mail2 = Some u"
    and "\<not> verifyPassword pw2 (password_hash u)"
    and "loginSchema is_email mail1 pw1 = []"
    and "loginSchema is_email mail2 pw2 = []"
  shows "login e d mail1 pw1 = Inl ''Invalid email or password''
       \<and> login e d mail2 pw2 = Inl ''Invalid email or password''
       \<and> post_login is_email e d mail1 pw1 =
           \<lparr> status = 401, success = False, message = None,
             error = Some ''Invalid email or password'', issues = [],
             data_user = None, set_access_token = None, set_refresh_token = None,
             cookies_cleared = False \<rparr>
       \<and> post_login is_email e d mail2 pw2 =
           \<lparr> status = 401, success = False, message = None,
             error = Some ''Invalid email or password'', issues = [],
             data_user = None, set_access_token = None, set_refresh_token = None,
             cookies_cleared = False \<rparr>
       \<and> status (post_login is_email e d mail1 pw1) = status (post_login is_email e d mail2 pw2)
       \<and> error (post_login is_email e d mail1 pw1) = error (post_login is_email e d mail2 pw2)
       \<and> post_login is_email e d mail1 pw1 = post_login is_email e d mail2 pw2"
  using assms by (simp add: post_login_def login_def json_error_def)

theorem login_failures_indistinguishable_witness:
  "findByEmail db0 ''bob@example.com'' = None
   \<and> findByEmail db0 ''alice@example.com'' = Some alice
   \<and> \<not> verifyPassword ''guess'' (password_hash alice)
   \<and> loginSchema has_at ''bob@example.com'' ''Correct-horse1!'' = []
   \<and> loginSchema has_at ''alice@example.com'' ''guess'' = []
   \<and> post_login has_at env0 db0 ''bob@example.com'' ''Correct-horse1!'' =
       \<lparr> status = 401, success = False, message = None,
         error = Some ''Invalid email or password'', issues = [],
         data_user = None, set_access_token = None, set_refresh_token = None,
         cookies_cleared = False \<rparr>
   \<and> post_login has_at env0 db0 ''alice@example.com'' ''guess'' =
       \<lparr> status = 401, success = False, message = None,
         error = Some ''Invalid email or password'', issues = [],
         data_user = None, set_access_token = None, set_refresh_token = None,
         cookies_cleared = False \<rparr>
   \<and> status (post_login has_at env0 db0 ''alice@example.com'' ''guess'') = 401
   \<and> error (post_login has_at env0 db0 ''alice@example.com'' ''guess'') =
       Some ''Invalid email or password''"
  using login_failures_indistinguishable [where d = db0 and ?mail1.0 = "''bob@example.com''"
      and ?mail2.0 = "''alice@example.com''" and u = alice and ?pw2.0 = "''guess''"
      and ?pw1.0 = "''Correct-horse1!''" and is_email = has_at and e = env0]
  by (simp add: lib_defs store_defs loginSchema_def has_at_def fixture_defs)

section \<open>Password reset\<close>

text \<open>Once the schema is passed, the route answers 200, whatever the service did.\<close>

lemma post_reset_password_status:
  "resetPasswordSchema tok pw = [] \<Longrightarrow>
     fst (post_reset_password d now salt tok pw) = json_ok (Some ''Password reset successfully'') None"
  by (simp add: post_reset_password_def split: prod.splits)

lemma AuthService_resetPassword_false:
  "fst (AuthService_resetPassword d now salt tok pw) = False"
  by (simp add: AuthService_resetPassword_def resetPassword_try_def UserService_resetPassword_def
      Let_def split: prod.splits sum.splits)

text \<open>
  C5. A reset is asked with a token that no user holds: the service reports failure and
  changes nothing, and the route answers 200, password reset successfully. The same happens
  with a password of eight characters that fails the strength policy.
\<close>

theorem reset_password_answers_200_on_failure:
  "AuthService_resetPassword db0 1000 3 ''deadbeef'' ''Str0ng!Pass'' = (False, db0)
   \<and> post_reset_password db0 1000 3 ''deadbeef'' ''Str0ng!Pass'' =
       (json_ok (Some ''Password reset successfully'') None, db0)
   \<and> AuthService_resetPassword db0 1000 3 ''deadbeef'' ''weakpass'' = (False, db0)
   \<and> post_reset_password db0 1000 3 ''deadbeef'' ''weakpass'' =
       (json_ok (Some ''Password reset successfully'') None, db0)"
  by (simp add: lib_defs store_defs ledger_defs authority_defs route_defs fixture_defs)

lemma no_match_after_reset:
  assumes "t1 \<le> t2"
  shows "\<not> reset_matches tok t2
            (if reset_matches tok t1 u
             then u\<lparr>password_hash := h, password_reset_token := None, password_reset_expires := None\<rparr>
             else u)"
  using assms by (auto simp: reset_matches_def split: option.splits)

lemma map_no_match:
  assumes "list_all (\<lambda>u. \<not> reset_matches tok t u) us"
  shows "map (\<lambda>u. if reset_matches tok t u then f u else u) us = us"
  using assms by (induction us) auto

text \<open>
  C9. A reset with a password that passes the strength policy is done at \<open>t1\<close> with a token
  that some user holds, unexpired: in that one update every such row gets the new hash and
  loses its token, so a row with the new hash and no token exists. At any instant \<open>t2\<close> not
  before \<open>t1\<close> no row matches the token any more: a second reset with it, whatever the new
  password, reports failure and leaves the database, and with it every password hash, as it
  was; the error it raises is "Invalid or expired reset token" when the new password passes
  the policy.
\<close>

theorem reset_token_single_use:
  assumes strong: "valid (validatePassword pw1)"
    and matched: "list_ex (reset_matches tok t1) (users d)"
    and later: "t1 \<le> t2"
  shows "(let d1 = snd (AuthService_resetPassword d t1 s1 tok pw1) in
            users d1 =
              map (\<lambda>u. if reset_matches tok t1 u
                        then u\<lparr>password_hash := Bun_password_hash s1 pw1,
                               password_reset_token := None,
                               password_reset_expires := None\<rparr>
                        else u) (users d)
          \<and> list_ex (\<lambda>u. password_hash u = Bun_password_hash s1 pw1 \<and> password_reset_token u = None)
               (users d1)
          \<and> list_all (\<lambda>u. \<not> reset_matches tok t2 u) (users d1)
          \<and> UserService_resetPassword d1 t2 s2 tok pw2 = (False, d1)
          \<and> AuthService_resetPassword d1 t2 s2 tok pw2 = (False, d1)
          \<and> fst (resetPassword_try d1 t2 s2 tok pw2) =
               (if valid (validatePassword pw2) then Inl ''Invalid or expired reset token''
                else Inl (''Password validation failed: '' @ js_join (errors (validatePassword pw2)))))"
proof -
  let ?f = "\<lambda>u. if reset_matches tok t1 u
                  then u\<lparr>password_hash := Bun_password_hash s1 pw1,
                         password_reset_token := None,
                         password_reset_expires := None\<rparr>
                  else u"
  let ?d1 = "d\<lparr>users := map ?f (users d)\<rparr>"
  have d1: "snd (AuthService_resetPassword d t1 s1 tok pw1) = ?d1"
    using strong
    by (simp add: AuthService_resetPassword_def resetPassword_try_def UserService_resetPassword_def Let_def)
  have replaced: "list_ex (\<lambda>u. password_hash u = Bun_password_hash s1 pw1 \<and> password_reset_token u = None)
               (users ?d1)"
  proof -
    from matched obtain x where x: "x \<in> set (users d)" "reset_matches tok t1 x"
      by (auto simp: list_ex_iff)
    let ?y = "x\<lparr>password_hash := Bun_password_hash s1 pw1,
                 password_reset_token := None,
                 password_reset_expires := None\<rparr>"
    have "?f x \<in> set (map ?f (users d))"
      using x(1) by (simp only: set_map) (rule imageI)
    moreover have "?f x = ?y"
      using x(2) by simp
    ultimately have "?y \<in> set (users ?d1)"
      by simp
    moreover have "password_hash ?y = Bun_password_hash s1 pw1 \<and> password_reset_token ?y = None"
      by simp
    ultimately show ?thesis
      unfolding list_ex_iff by blast
  qed
  have none: "list_all (\<lambda>u. \<not> reset_matches tok t2 u) (users ?d1)"
  proof -
    have u1: "users ?d1 = map ?f (users d)"
      by simp
    have "list_all ((\<lambda>u. \<not> reset_matches tok t2 u) \<circ> ?f) (users d)"
      unfolding list_all_iff comp_def using no_match_after_reset [OF later] by blast
    then show ?thesis
      unfolding u1 list.pred_map .
  qed
  have same: "map (\<lambda>u. if reset_matches tok t2 u
                        then u\<lparr>password_hash := Bun_password_hash s2 pw2,
                               password_reset_token := None,
                               password_reset_expires := None\<rparr>
                        else u) (users ?d1) = users ?d1"
    using none by (rule map_no_match)
  have user: "UserService_resetPassword ?d1 t2 s2 tok pw2 = (False, ?d1)"
    unfolding UserService_resetPassword_def Let_def same by simp
  have auth: "AuthService_resetPassword ?d1 t2 s2 tok pw2 = (False, ?d1)"
    by (simp add: AuthService_resetPassword_def resetPassword_try_def user)
  have thrown: "fst (resetPassword_try ?d1 t2 s2 tok pw2) =
               (if valid (validatePassword pw2) then Inl ''Invalid or expired reset token''
                else Inl (''Password validation failed: '' @ js_join (errors (validatePassword pw2))))"
    by (simp add: resetPassword_try_def user)
  show ?thesis
    unfolding Let_def d1 using replaced none user auth thrown by simp
qed

theorem reset_token_single_use_witness:
  "valid (validatePassword ''N3w-Passw0rd!'')
   \<and> list_ex (reset_matches ''5f2d9c'' 1000) (users reset_db)
   \<and> (1000::int) \<le> 2000
   \<and> map password_hash (users (snd (AuthService_resetPassword reset_db 1000 11 ''5f2d9c'' ''N3w-Passw0rd!'')))
       = [PHC 11 ''N3w-Passw0rd!'']
   \<and> map password_reset_token (users (snd (AuthService_resetPassword reset_db 1000 11 ''5f2d9c'' ''N3w-Passw0rd!'')))
       = [None]
   \<and> AuthService_resetPassword
        (snd (AuthService_resetPassword reset_db 1000 11 ''5f2d9c'' ''N3w-Passw0rd!''))
        2000 12 ''5f2d9c'' ''An0ther-Pass!'' =
       (False, snd (AuthService_resetPassword reset_db 1000 11 ''5f2d9c'' ''N3w-Passw0rd!''))
   \<and> fst (resetPassword_try
        (snd (AuthService_resetPassword reset_db 1000 11 ''5f2d9c'' ''N3w-Passw0rd!''))
        2000 12 ''5f2d9c'' ''An0ther-Pass!'') = Inl ''Invalid or expired reset token''"
  using reset_token_single_use [where d = reset_db and tok = "''5f2d9c''" and ?t1.0 = 1000
      and ?t2.0 = 2000 and ?pw1.0 = "''N3w-Passw0rd!''" and ?pw2.0 = "''An0ther-Pass!''"
      and ?s1.0 = 11 and ?s2.0 = 12]
  by (simp add: reset_db_def lib_defs store_defs authority_defs fixture_defs Let_def)

section \<open>The current-user route\<close>

text \<open>
  What \<^verbatim>\<open>verify\<close> accepts: a token signed with the secret whose \<open>nbf\<close>, \<open>exp\<close> and
  \<open>iat\<close>, where it carries them, are not violated at the current second.
\<close>

lemma verify_accepts_iff:
  "verify tok secret now = Inr p \<longleftrightarrow>
     tok = Jwt p secret
     \<and> (case nbf p of None \<Rightarrow> True | Some n \<Rightarrow> n = 0 \<or> n \<le> now div 1000)
     \<and> (case exp p of None \<Rightarrow> True | Some x \<Rightarrow> x = 0 \<or> now div 1000 < x)
     \<and> (case iat p of None \<Rightarrow> True | Some i \<Rightarrow> i = 0 \<or> i \<le> now div 1000)"
  by (cases tok) (auto simp: verify_def Let_def split: option.splits)

text \<open>
  C10, as stated, fails on a token whose signature verifies but whose expiry is past: the
  token below is signed with the server's secret, carries Alice's id, her email and the kind
  access, and Alice exists, yet \<^verbatim>\<open>GET /auth/me\<close> answers 401 at instant 5000000, because
  \<^verbatim>\<open>verify\<close> also checks the expiry (second 1). It fails as well on a signed token of Alice
  whose email field is present but empty.
\<close>

theorem me_refuses_expired_signed_token:
  "findById db0 (user_id alice) = Some alice
   \<and> get_me env0 db0 5000000
        (Some (sign \<lparr> userId = Some (user_id alice), email = Some (user_email alice),
                      tokenType = Some ''access'', iat = None, exp = Some 1, nbf = None \<rparr>
                 (JWT_SECRET env0))) =
       \<lparr> status = 401, success = False, message = None,
         error = Some ''Invalid or expired access token'', issues = [],
         data_user = None, set_access_token = None, set_refresh_token = None,
         cookies_cleared = False \<rparr>
   \<and> get_me env0 db0 5000000
        (Some (sign \<lparr> userId = Some (user_id alice), email = Some [],
                      tokenType = Some ''access'', iat = None, exp = None, nbf = None \<rparr>
                 (JWT_SECRET env0))) =
       \<lparr> status = 401, success = False, message = None,
         error = Some ''Invalid or expired access token'', issues = [],
         data_user = None, set_access_token = None, set_refresh_token = None,
         cookies_cleared = False \<rparr>"
  by (simp add: lib_defs store_defs authority_defs route_defs fixture_defs)

text \<open>
  C10, amended. The token of the access cookie is signed with the server's secret; its
  \<open>nbf\<close>, \<open>exp\<close> and \<open>iat\<close>, where it carries them, are not violated at the current second;
  its user id, email and kind are present and not empty; and the user id names a user. Then
  \<^verbatim>\<open>GET /auth/me\<close> answers with status 200, the success flag and that user (every column of
  the row but the password hash), whatever the kind is. The answer does not depend on the
  blacklist or on the logout-all instants: with both tables replaced it is the same
  response. And there is a token that the gate refuses with 401 while the route answers 200
  with the user: Alice's access token after her logout-all.
\<close>

theorem me_ignores_revocation:
  assumes "tok = Jwt p (JWT_SECRET e)"
    and "(case nbf p of None \<Rightarrow> True | Some n \<Rightarrow> n = 0 \<or> n \<le> now div 1000)"
    and "(case exp p of None \<Rightarrow> True | Some x \<Rightarrow> x = 0 \<or> now div 1000 < x)"
    and "(case iat p of None \<Rightarrow> True | Some i \<Rightarrow> i = 0 \<or> i \<le> now div 1000)"
    and "userId p = Some uid" and "uid \<noteq> []"
    and "email p = Some em" and "em \<noteq> []"
    and "tokenType p = Some kind" and "kind \<noteq> []"
    and "findById d uid = Some u"
  shows "get_me e d now (Some tok) =
           \<lparr> status = 200, success = True, message = None, error = None, issues = [],
             data_user =
               Some \<lparr> pu_id = user_id u, pu_email = user_email u, pu_name = user_name u,
                      pu_created_at = created_at u, pu_updated_at = updated_at u,
                      pu_email_verified = email_verified u,
                      pu_password_reset_token = password_reset_token u,
                      pu_password_reset_expires = password_reset_expires u \<rparr>,
             set_access_token = None, set_refresh_token = None, cookies_cleared = False \<rparr>
       \<and> get_me e (d\<lparr>token_blacklist := bl, user_logout_timestamps := lo\<rparr>) now (Some tok) =
           \<lparr> status = 200, success = True, message = None, error = None, issues = [],
             data_user =
               Some \<lparr> pu_id = user_id u, pu_email = user_email u, pu_name = user_name u,
                      pu_created_at = created_at u, pu_updated_at = updated_at u,
                      pu_email_verified = email_verified u,
                      pu_password_reset_token = password_reset_token u,
                      pu_password_reset_expires = password_reset_expires u \<rparr>,
             set_access_token = None, set_refresh_token = None, cookies_cleared = False \<rparr>
       \<and> authMiddleware env0 logged_out_db 5000000 2 (Some (generateAccessToken env0 alice)) =
           Rejected
             \<lparr> status = 401, success = False, message = None,
               error = Some ''Session has been terminated. Please login again.'', issues = [],
               data_user = None, set_access_token = None, set_refresh_token = None,
               cookies_cleared = False \<rparr>
       \<and> get_me env0 logged_out_db 5000000 (Some (generateAccessToken env0 alice)) =
           \<lparr> status = 200, success = True, message = None, error = None, issues = [],
             data_user =
               Some \<lparr> pu_id = ''6f1c2b9e-0c4d-4e7a-9f51-2f0f5f3a9b10'',
                      pu_email = ''alice@example.com'', pu_name = ''Alice'',
                      pu_created_at = 0, pu_updated_at = 0, pu_email_verified = False,
                      pu_password_reset_token = None, pu_password_reset_expires = None \<rparr>,
             set_access_token = None, set_refresh_token = None, cookies_cleared = False \<rparr>"
proof -
  have accepted: "verify tok (JWT_SECRET e) now = Inr p"
    using assms(1-4) by (simp add: verify_accepts_iff)
  have jwt: "\<not> no_token (Some tok)"
    using assms(1) by (simp add: no_token_def)
  have decoded: "verifyToken e now tok None = Some p"
    using accepted assms(5-10) by (simp add: verifyToken_def js_falsy_def)
  have me: "get_me e d' now (Some tok) =
           \<lparr> status = 200, success = True, message = None, error = None, issues = [],
             data_user =
               Some \<lparr> pu_id = user_id u, pu_email = user_email u, pu_name = user_name u,
                      pu_created_at = created_at u, pu_updated_at = updated_at u,
                      pu_email_verified = email_verified u,
                      pu_password_reset_token = password_reset_token u,
                      pu_password_reset_expires = password_reset_expires u \<rparr>,
             set_access_token = None, set_refresh_token = None, cookies_cleared = False \<rparr>"
    if "findById d' uid = Some u" for d'
    using jwt decoded that assms(5)
    by (simp add: get_me_def getUserFromToken_def json_ok_def userWithoutPassword_def)
  have same_users: "findById (d\<lparr>token_blacklist := bl, user_logout_timestamps := lo\<rparr>) uid = Some u"
    using assms(11) by (simp add: findById_def)
  have gate: "authMiddleware env0 logged_out_db 5000000 2 (Some (generateAccessToken env0 alice)) =
           Rejected
             \<lparr> status = 401, success = False, message = None,
               error = Some ''Session has been terminated. Please login again.'', issues = [],
               data_user = None, set_access_token = None, set_refresh_token = None,
               cookies_cleared = False \<rparr>"
    by (simp add: logged_out_db_def lib_defs store_defs ledger_defs authority_defs route_defs fixture_defs)
  have me200: "get_me env0 logged_out_db 5000000 (Some (generateAccessToken env0 alice)) =
           \<lparr> status = 200, success = True, message = None, error = None, issues = [],
             data_user =
               Some \<lparr> pu_id = ''6f1c2b9e-0c4d-4e7a-9f51-2f0f5f3a9b10'',
                      pu_email = ''alice@example.com'', pu_name = ''Alice'',
                      pu_created_at = 0, pu_updated_at = 0, pu_email_verified = False,
                      pu_password_reset_token = None, pu_password_reset_expires = None \<rparr>,
             set_access_token = None, set_refresh_token = None, cookies_cleared = False \<rparr>"
    by (simp add: logged_out_db_def lib_defs store_defs ledger_defs authority_defs route_defs fixture_defs)
  show ?thesis
    using me [OF assms(11)] me [OF same_users] gate me200 by simp
qed

theorem me_ignores_revocation_witness:
  "generateRefreshToken env0 alice =
     Jwt \<lparr> userId = Some (user_id alice), email = Some (user_email alice),
           tokenType = Some ''refresh'', iat = None, exp = None, nbf = None \<rparr> (JWT_SECRET env0)
   \<and> user_id alice \<noteq> [] \<and> user_email alice \<noteq> [] \<and> ''refresh'' \<noteq> []
   \<and> findById db0 (user_id alice) = Some alice
   \<and> get_me env0 db0 5000000 (Some (generateRefreshToken env0 alice)) =
       \<lparr> status = 200, success = True, message = None, error = None, issues = [],
         data_user =
           Some \<lparr> pu_id = ''6f1c2b9e-0c4d-4e7a-9f51-2f0f5f3a9b10'',
                  pu_email = ''alice@example.com'', pu_name = ''Alice'',
                  pu_created_at = 0, pu_updated_at = 0, pu_email_verified = False,
                  pu_password_reset_token = None, pu_password_reset_expires = None \<rparr>,
         set_access_token = None, set_refresh_token = None, cookies_cleared = False \<rparr>
   \<and> get_me env0 logged_out_db 5000000 (Some (generateRefreshToken env0 alice)) =
       \<lparr> status = 200, success = True, message = None, error = None, issues = [],
         data_user =
           Some \<lparr> pu_id = ''6f1c2b9e-0c4d-4e7a-9f51-2f0f5f3a9b10'',
                  pu_email = ''alice@example.com'', pu_name = ''Alice'',
                  pu_created_at = 0, pu_updated_at = 0, pu_email_verified = False,
                  pu_password_reset_token = None, pu_password_reset_expires = None \<rparr>,
         set_access_token = None, set_refresh_token = None, cookies_cleared = False \<rparr>"
  using me_ignores_revocation [where tok = "generateRefreshToken env0 alice" and e = env0
      and now = 5000000 and d = db0 and u = alice and uid = "user_id alice"
      and em = "user_email alice" and kind = "''refresh''"
      and p = "\<lparr> userId = Some (user_id alice), email = Some (user_email alice),
           tokenType = Some ''refresh'', iat = None, exp = None, nbf = None \<rparr>"
      and bl = "[]" and lo = "[user_id alice \<mapsto> 1000000]"]
  by (simp add: logged_out_db_def lib_defs store_defs authority_defs fixture_defs)

end
